theory Spec2Isabelle
  imports Main "HOL-Library.AList" "HOL-Library.Char_ord" "HOL-Library.List_Lexorder"
    "HOL-Library.Multiset"
begin

section \<open>The integrity checker of darglint (integrity\_checker.py)\<close>

text \<open>
  The checker compares a function's signature (a FunctionDescription) with the parsed
  view of its docstring (a BaseDocstring) and appends one DarglintError per mismatch to
  \<open>self.errors\<close>. The docstring parser, the error classes, the configuration and the
  report are declared in other modules; what the checker reads from them is modelled
  here as data, and what it calls is taken as a parameter (record \<open>collaborators\<close>).
\<close>

subsection \<open>Data the checker reads\<close>

text \<open>The two members of DocstringStyle that \<open>run_checks\<close> dispatches on.\<close>

datatype docstring_style = GOOGLE | SPHINX

text \<open>
  Modelled from the spec: the Strictness enumeration is declared in the config module;
  the checker names only FULL\_DESCRIPTION, the other two levels are the spec's
  "any description" and "short description".
\<close>

datatype strictness_level = ANY_DESCRIPTION | SHORT_DESCRIPTION | FULL_DESCRIPTION

text \<open>The members of Sections the checker asks for.\<close>

datatype sections =
    ARGUMENTS_SECTION | RAISES_SECTION | RETURNS_SECTION | VARIABLES_SECTION | YIELDS_SECTION

text \<open>
  The error classes imported from the errors module. A style error class comes from the
  parser (\<open>get_style_errors\<close>); it is identified by its name.
\<close>

datatype error_class =
    ExcessParameterError | ExcessRaiseError | ExcessReturnError | ExcessVariableError
  | ExcessYieldError | MissingParameterError | MissingRaiseError | MissingReturnError
  | MissingYieldError | ParameterTypeMismatchError | ParameterTypeMissingError
  | ReturnTypeMismatchError | StyleError string

text \<open>The ast node of the function: \<open>_sort\<close> reads its \<open>lineno\<close>.\<close>

record ast_function =
  node_name :: string
  lineno :: int

text \<open>
  An error instance as the checker constructs it: the class, the ast node
  (\<open>function.function\<close>), the keyword or positional arguments \<open>name\<close>, \<open>expected\<close>,
  \<open>actual\<close> and \<open>line_numbers\<close>; an argument the constructor call leaves out is None.
\<close>

record darglint_error =
  cls :: error_class
  fn_node :: ast_function
  name :: "string option"
  expected :: "string option"
  actual :: "string option"
  line_numbers :: "(int \<times> int) option"

text \<open>
  FunctionDescription, the attributes the checker reads. The class is declared in
  another module; an attribute is modelled by the value a run reads from it (names in
  order for the sequences, a set for \<open>raises\<close>).
\<close>

record function_description =
  fd_function :: ast_function
  argument_names :: "string list"
  argument_types :: "string option list"
  return_type :: "string option"
  has_return :: bool
  has_yield :: bool
  raises :: "string set"
  variables :: "string list"
  fd_docstring :: "string option"

text \<open>
  What \<open>get_types\<close> returns: None, one type (Returns and Yields sections) or a list of
  optional types (item sections).
\<close>

datatype types_value = NoTypes | TypeStr string | TypeList "string option list"

text \<open>
  The docstring view. \<open>get_noqas\<close> is a dictionary from error code to the list of
  names the noqa applies to; an empty list stands for the whole docstring.
\<close>

record base_docstring =
  get_section :: "sections \<Rightarrow> string option"
  get_types :: "sections \<Rightarrow> types_value"
  get_items :: "sections \<Rightarrow> string list option"
  get_noqas :: "string \<rightharpoonup> string list"
  get_line_numbers :: "string \<Rightarrow> (int \<times> int) option"
  get_line_numbers_for_value :: "string \<Rightarrow> string \<Rightarrow> (int \<times> int) option"
  get_style_errors :: "(error_class \<times> (int \<times> int)) list"
  ignore_all :: bool
  satisfies_strictness :: "strictness_level \<Rightarrow> bool"

record configuration =
  ignore :: "string list"
  message_template :: "string option"
  style :: docstring_style
  strictness :: strictness_level

datatype parser_exception = ParserException string

text \<open>
  What the checker calls in other modules: the two parsers (either may raise), the
  \<open>error_code\<close> attribute of each error class, and the order in which Python iterates
  a set of names (the language leaves it open).
\<close>

record collaborators =
  from_google :: "string \<Rightarrow> parser_exception + base_docstring"
  from_sphinx :: "string \<Rightarrow> parser_exception + base_docstring"
  error_code :: "error_class \<Rightarrow> string"
  set_iteration :: "string set \<Rightarrow> string list"

text \<open>The ErrorReport object: what its constructor keeps of its four arguments.\<close>

record error_report =
  report_errors :: "darglint_error list"
  report_filename :: string
  report_verbosity :: int
  report_message_template :: "string option"

text \<open>
  The checker object. \<open>executor\<close> holds the futures of the submitted runs, each with
  the exception its run ended with, if any.
\<close>

record integrity_checker =
  errors :: "darglint_error list"
  sorted_flag :: bool
  config :: configuration
  raise_errors :: bool
  docstring :: "base_docstring option"
  executor :: "parser_exception option list"

subsection \<open>Python idioms\<close>

text \<open>\<open>xs or []\<close> for an optional list.\<close>

definition or_empty :: "'a list option \<Rightarrow> 'a list" where
  "or_empty v = (case v of None \<Rightarrow> [] | Some xs \<Rightarrow> xs)"

text \<open>
  \<open>get_types(...) or []\<close>, as the sequence \<open>zip\<close> iterates: a string is iterated
  character by character.
\<close>

definition types_or_empty :: "types_value \<Rightarrow> string option list" where
  "types_or_empty v =
     (case v of NoTypes \<Rightarrow> [] | TypeStr s \<Rightarrow> map (\<lambda>c. Some [c]) s | TypeList ts \<Rightarrow> ts)"

text \<open>\<open>x or default\<close> for an optional pair of line numbers (a pair is never falsy).\<close>

definition or_default :: "(int \<times> int) option \<Rightarrow> (int \<times> int) option \<Rightarrow> (int \<times> int) option" where
  "or_default v d = (case v of None \<Rightarrow> d | Some l \<Rightarrow> Some l)"

text \<open>Truth value of an optional string: None and the empty string are falsy.\<close>

definition truthy :: "string option \<Rightarrow> bool" where
  "truthy v = (case v of None \<Rightarrow> False | Some s \<Rightarrow> s \<noteq> [])"

text \<open>
  \<open>dict(pairs)\<close>: a key keeps the position of its first insertion and the value of its
  last.
\<close>

definition py_dict :: "('k \<times> 'v) list \<Rightarrow> ('k \<times> 'v) list" where
  "py_dict kvs = foldl (\<lambda>d (k, v). AList.update k v d) [] kvs"

subsection \<open>Suppression\<close>

definition ignore_error :: "collaborators \<Rightarrow> configuration \<Rightarrow> base_docstring \<Rightarrow> error_class \<Rightarrow> bool" where
  "ignore_error env cfg doc error =
     (let code = error_code env error in
      if code \<in> set (ignore cfg) then True
      else (case get_noqas doc code of
              None \<Rightarrow> False
            | Some targets \<Rightarrow> (if targets = [] then True else False)))"

definition remove_ignored ::
  "collaborators \<Rightarrow> configuration \<Rightarrow> base_docstring \<Rightarrow> string set \<Rightarrow> error_class \<Rightarrow> string set" where
  "remove_ignored env cfg doc missing error =
     (let code = error_code env error in
      if ignore_error env cfg doc error then {}
      else (case get_noqas doc code of
              None \<Rightarrow> missing
            | Some targets \<Rightarrow> missing - set targets))"

subsection \<open>The checks\<close>

text \<open>
  A check only appends to \<open>self.errors\<close>; it is modelled by the list of errors it
  appends, in the order of the appends.
\<close>

definition mk_error ::
  "error_class \<Rightarrow> function_description \<Rightarrow> string option \<Rightarrow> string option \<Rightarrow> string option
     \<Rightarrow> (int \<times> int) option \<Rightarrow> darglint_error" where
  "mk_error c function n e a l =
     \<lparr>cls = c, fn_node = fd_function function, name = n, expected = e, actual = a,
      line_numbers = l\<rparr>"

definition name_has_noqa :: "base_docstring \<Rightarrow> string \<Rightarrow> string \<Rightarrow> bool" where
  "name_has_noqa doc code n =
     (case get_noqas doc code of None \<Rightarrow> False | Some targets \<Rightarrow> n \<in> set targets)"

definition check_parameter_types ::
  "collaborators \<Rightarrow> configuration \<Rightarrow> base_docstring \<Rightarrow> function_description \<Rightarrow> darglint_error list" where
  "check_parameter_types env cfg doc function =
     (let code = error_code env ParameterTypeMismatchError in
      if ignore_error env cfg doc ParameterTypeMismatchError then []
      else
        let arg_types = py_dict (zip (or_empty (get_items doc ARGUMENTS_SECTION))
                                     (types_or_empty (get_types doc ARGUMENTS_SECTION)));
            doc_arg_types = map (\<lambda>n. case map_of arg_types n of None \<Rightarrow> None | Some t \<Rightarrow> t)
                                (argument_names function)
        in concat (map (\<lambda>(n, exp, act).
             case exp of None \<Rightarrow> []
             | Some e \<Rightarrow>
               (case act of None \<Rightarrow> []
                | Some a \<Rightarrow>
                  if \<not> (e = a \<or> name_has_noqa doc code n)
                  then [mk_error ParameterTypeMismatchError function (Some n) (Some e) (Some a)
                          (or_default (get_line_numbers_for_value doc ''ident'' n)
                                      (get_line_numbers doc ''arguments-section''))]
                  else []))
             (zip (argument_names function) (zip (argument_types function) doc_arg_types))))"

definition check_parameter_types_missing ::
  "collaborators \<Rightarrow> configuration \<Rightarrow> base_docstring \<Rightarrow> function_description \<Rightarrow> darglint_error list" where
  "check_parameter_types_missing env cfg doc function =
     (let code = error_code env ParameterTypeMissingError in
      if ignore_error env cfg doc ParameterTypeMissingError then []
      else
        let arg_types = py_dict (zip (or_empty (get_items doc ARGUMENTS_SECTION))
                                     (types_or_empty (get_types doc ARGUMENTS_SECTION)))
        in concat (map (\<lambda>(n, argument_type).
             if argument_type = None \<and> \<not> name_has_noqa doc code n
             then [mk_error ParameterTypeMissingError function (Some n) None None
                     (or_default (get_line_numbers_for_value doc ''ident'' n)
                                 (get_line_numbers doc ''arguments-section''))]
             else [])
             arg_types))"

definition check_return_type ::
  "collaborators \<Rightarrow> configuration \<Rightarrow> base_docstring \<Rightarrow> function_description \<Rightarrow> darglint_error list" where
  "check_return_type env cfg doc function =
     (if ignore_error env cfg doc ReturnTypeMismatchError then []
      else
        let fun_type = return_type function;
            doc_type = (case get_types doc RETURNS_SECTION of
                          NoTypes \<Rightarrow> None
                        | TypeStr s \<Rightarrow> (if s = [] then None else Some s)
                        | TypeList ts \<Rightarrow> None)
        in (case fun_type of None \<Rightarrow> []
            | Some f \<Rightarrow>
              (case doc_type of None \<Rightarrow> []
               | Some d \<Rightarrow>
                 if f \<noteq> d
                 then [mk_error ReturnTypeMismatchError function None (Some f) (Some d)
                         (get_line_numbers doc ''returns-section'')]
                 else [])))"

definition check_yield ::
  "collaborators \<Rightarrow> configuration \<Rightarrow> base_docstring \<Rightarrow> function_description \<Rightarrow> darglint_error list" where
  "check_yield env cfg doc function =
     (let doc_yield = truthy (get_section doc YIELDS_SECTION);
          fun_yield = has_yield function;
          ignore_missing = ignore_error env cfg doc MissingYieldError;
          ignore_excess = ignore_error env cfg doc ExcessYieldError
      in if fun_yield \<and> \<not> doc_yield \<and> \<not> ignore_missing
         then [mk_error MissingYieldError function None None None None]
         else if doc_yield \<and> \<not> fun_yield \<and> \<not> ignore_excess
         then [mk_error ExcessYieldError function None None None
                 (get_line_numbers doc ''yields-section'')]
         else [])"

definition check_return ::
  "collaborators \<Rightarrow> configuration \<Rightarrow> base_docstring \<Rightarrow> function_description \<Rightarrow> darglint_error list" where
  "check_return env cfg doc function =
     (let doc_return = truthy (get_section doc RETURNS_SECTION);
          fun_return = has_return function;
          ignore_missing = ignore_error env cfg doc MissingReturnError;
          ignore_excess = ignore_error env cfg doc ExcessReturnError
      in if fun_return \<and> \<not> doc_return \<and> \<not> ignore_missing
         then [mk_error MissingReturnError function None None None None]
         else if doc_return \<and> \<not> fun_return \<and> \<not> ignore_excess
         then [mk_error ExcessReturnError function None None None
                 (get_line_numbers doc ''returns-section'')]
         else [])"

definition check_parameters ::
  "collaborators \<Rightarrow> configuration \<Rightarrow> base_docstring \<Rightarrow> function_description \<Rightarrow> darglint_error list" where
  "check_parameters env cfg doc function =
     (let docstring_arguments = set (or_empty (get_items doc ARGUMENTS_SECTION));
          actual_arguments = set (argument_names function);
          missing_in_doc = remove_ignored env cfg doc
                             (actual_arguments - docstring_arguments) MissingParameterError;
          default_line_numbers = get_line_numbers doc ''arguments-section'';
          missing_in_function = remove_ignored env cfg doc
                                  (docstring_arguments - actual_arguments) ExcessParameterError
      in map (\<lambda>missing. mk_error MissingParameterError function (Some missing) None None
                           default_line_numbers)
             (set_iteration env missing_in_doc)
         @ map (\<lambda>missing. mk_error ExcessParameterError function (Some missing) None None
                             (or_default (get_line_numbers_for_value doc ''arguments-section'' missing)
                                         default_line_numbers))
               (set_iteration env missing_in_function))"

definition check_variables ::
  "collaborators \<Rightarrow> configuration \<Rightarrow> base_docstring \<Rightarrow> function_description \<Rightarrow> darglint_error list" where
  "check_variables env cfg doc function =
     (let described_variables = set (or_empty (get_items doc VARIABLES_SECTION));
          actual_variables = set (variables function);
          excess_in_doc = described_variables - actual_variables;
          default_line_numbers = get_line_numbers doc ''variables-section''
      in map (\<lambda>excess. mk_error ExcessVariableError function (Some excess) None None
                          (or_default (get_line_numbers_for_value doc ''variables-section'' excess)
                                      default_line_numbers))
             (set_iteration env excess_in_doc))"

definition check_style ::
  "collaborators \<Rightarrow> configuration \<Rightarrow> base_docstring \<Rightarrow> function_description \<Rightarrow> darglint_error list" where
  "check_style env cfg doc function =
     map (\<lambda>(style_error, lines). mk_error style_error function None None None (Some lines))
         (get_style_errors doc)"

definition check_raises ::
  "collaborators \<Rightarrow> configuration \<Rightarrow> base_docstring \<Rightarrow> function_description \<Rightarrow> darglint_error list" where
  "check_raises env cfg doc function =
     (let docstring_raises = set (or_empty (get_items doc RAISES_SECTION));
          actual_raises = raises function;
          missing_in_doc = remove_ignored env cfg doc
                             (actual_raises - docstring_raises) MissingRaiseError;
          missing_in_function = remove_ignored env cfg doc
                                  (docstring_raises - actual_raises) ExcessRaiseError;
          default_line_numbers = get_line_numbers doc ''raises-section''
      in map (\<lambda>missing. mk_error MissingRaiseError function (Some missing) None None None)
             (set_iteration env missing_in_doc)
         @ map (\<lambda>missing. mk_error ExcessRaiseError function (Some missing) None None
                             (or_default (get_line_numbers_for_value doc ''raises-section'' missing)
                                         default_line_numbers))
               (set_iteration env missing_in_function))"

subsection \<open>The checker\<close>

definition default_config :: configuration where
  "default_config =
     \<lparr>ignore = [], message_template = None, style = GOOGLE, strictness = FULL_DESCRIPTION\<rparr>"

definition init_checker :: "configuration \<Rightarrow> bool \<Rightarrow> integrity_checker" where
  "init_checker cfg raise =
     \<lparr>errors = [], sorted_flag = True, config = cfg, raise_errors = raise,
      docstring = None, executor = []\<rparr>"

text \<open>
  The battery behind the two early returns of \<open>run_checks\<close>, in the order of the calls.
\<close>

definition battery ::
  "collaborators \<Rightarrow> configuration \<Rightarrow> base_docstring \<Rightarrow> function_description \<Rightarrow> darglint_error list" where
  "battery env cfg doc function =
     check_parameters env cfg doc function
     @ check_parameter_types env cfg doc function
     @ check_parameter_types_missing env cfg doc function
     @ check_return env cfg doc function
     @ check_return_type env cfg doc function
     @ check_yield env cfg doc function
     @ check_raises env cfg doc function
     @ check_style env cfg doc function"

text \<open>
  \<open>run_checks\<close>: \<open>Inl\<close> is the exception a parser raised (nothing has been assigned or
  appended by then), \<open>Inr\<close> the checker after a run that returned.
\<close>

definition run_checks ::
  "collaborators \<Rightarrow> integrity_checker \<Rightarrow> function_description
     \<Rightarrow> parser_exception + integrity_checker" where
  "run_checks env self function =
     (case fd_docstring function of
        None \<Rightarrow> Inr self
      | Some text \<Rightarrow>
        (case (case style (config self) of
                 GOOGLE \<Rightarrow> from_google env text
               | SPHINX \<Rightarrow> from_sphinx env text) of
           Inl e \<Rightarrow> Inl e
         | Inr doc \<Rightarrow>
           let self1 = self\<lparr>docstring := Some doc\<rparr>;
               self2 = (case style (config self) of
                          GOOGLE \<Rightarrow> self1
                        | SPHINX \<Rightarrow>
                            self1\<lparr>errors := errors self1
                                      @ check_variables env (config self) doc function\<rparr>)
           in if strictness (config self) \<noteq> FULL_DESCRIPTION
                 \<and> satisfies_strictness doc (strictness (config self))
              then Inr self2
              else if ignore_all doc then Inr self2
              else Inr (self2\<lparr>errors := errors self2 @ battery env (config self) doc function,
                               sorted_flag := False\<rparr>)))"

text \<open>
  \<open>schedule\<close>, for a call whose run has the pool to itself: the run is submitted, its
  future is dropped, and the run finishes before anything else is submitted; an
  exception of the run stays in the future. Runs that share the pool are the subject
  of \<open>pool_runs\<close> below.
\<close>

definition schedule ::
  "collaborators \<Rightarrow> integrity_checker \<Rightarrow> function_description \<Rightarrow> integrity_checker" where
  "schedule env self function =
     (if fd_docstring function = None then self
      else (case run_checks env self function of
              Inl e \<Rightarrow> self\<lparr>executor := executor self @ [Some e]\<rparr>
            | Inr self' \<Rightarrow> self'\<lparr>executor := executor self' @ [None]\<rparr>))"

text \<open>\<open>_sort\<close>: \<open>list.sort\<close> with a key is stable, as \<open>sort_key\<close> is.\<close>

definition sort_errors :: "integrity_checker \<Rightarrow> integrity_checker" where
  "sort_errors self =
     (if \<not> sorted_flag self
      then self\<lparr>errors := sort_key (\<lambda>x. lineno (fn_node x)) (errors self), sorted_flag := True\<rparr>
      else self)"

text \<open>
  Modelled from the spec: the ErrorReport class is declared in the error\_report module,
  which is not part of this file. Section 4.3 of the specification has report
  finalization perform a stable sort of the collection by the source position of the
  owning function, ties kept in discovery order. \<open>get_error_report\<close> does not sort
  and \<open>_sort\<close> is called nowhere, so the sort is the constructor's; it keeps its other
  arguments as they are.
\<close>

definition ErrorReport ::
  "darglint_error list \<Rightarrow> string \<Rightarrow> int \<Rightarrow> string option \<Rightarrow> error_report" where
  "ErrorReport errs filename verbosity template =
     \<lparr>report_errors = sort_key (\<lambda>x. lineno (fn_node x)) errs, report_filename = filename,
      report_verbosity = verbosity, report_message_template = template\<rparr>"

text \<open>
  \<open>get_error_report\<close>: \<open>executor.shutdown()\<close> waits for the runs and reads no future,
  then the report is constructed on \<open>self.errors\<close>. \<open>Inl\<close> would be an exception
  leaving the method.
\<close>

definition get_error_report ::
  "integrity_checker \<Rightarrow> int \<Rightarrow> string \<Rightarrow> string option \<Rightarrow> parser_exception + error_report" where
  "get_error_report self verbosity filename template =
     Inr (ErrorReport (errors self) filename verbosity
            (if truthy template then template else message_template (config self)))"

subsection \<open>Runs in the pool\<close>

text \<open>
  What a run appends once its docstring is parsed to \<open>doc\<close>: under the Sphinx style
  the errors of the variables check, and then, unless one of the two early returns is
  taken, the errors of the eight checks behind them.
\<close>

definition variables_appends ::
  "collaborators \<Rightarrow> configuration \<Rightarrow> base_docstring \<Rightarrow> function_description \<Rightarrow> darglint_error list" where
  "variables_appends env cfg doc f =
     (case style cfg of GOOGLE \<Rightarrow> [] | SPHINX \<Rightarrow> check_variables env cfg doc f)"

definition battery_appends ::
  "collaborators \<Rightarrow> configuration \<Rightarrow> base_docstring \<Rightarrow> function_description \<Rightarrow> darglint_error list" where
  "battery_appends env cfg doc f =
     (if strictness cfg \<noteq> FULL_DESCRIPTION \<and> satisfies_strictness doc (strictness cfg) then []
      else if ignore_all doc then []
      else check_parameters env cfg doc f
           @ check_parameter_types env cfg doc f
           @ check_parameter_types_missing env cfg doc f
           @ check_return env cfg doc f
           @ check_return_type env cfg doc f
           @ check_yield env cfg doc f
           @ check_raises env cfg doc f
           @ check_style env cfg doc f)"

text \<open>
  Runs that share the pool. Each pending run holds the errors it has still to append,
  in its own order; any pending run may do its next append (\<open>list.append\<close> is atomic),
  so the appends of the runs interleave in any way. The pool has finished when no run
  has an append left. \<open>pool_runs collection pending final\<close>: from \<open>collection\<close>, the
  pending runs can finish with the collection \<open>final\<close>.
\<close>

inductive pool_runs :: "'a list \<Rightarrow> 'a list list \<Rightarrow> 'a list \<Rightarrow> bool" where
  finished: "concat pending = [] \<Longrightarrow> pool_runs collection pending collection"
| append: "i < length pending \<Longrightarrow> pending ! i = x # rest
    \<Longrightarrow> pool_runs (collection @ [x]) (pending[i := rest]) final
    \<Longrightarrow> pool_runs collection pending final"

subsection \<open>Notions of the specification\<close>

text \<open>
  The suppression resolver as the specification words it: a kind is suppressed when its
  code is in the global ignore list or the suppression index maps it to an empty target
  list; the filter returns nothing for a suppressed kind, the candidates minus a
  non-empty target list when the index has one, the candidates otherwise.
\<close>

definition is_kind_suppressed :: "configuration \<Rightarrow> base_docstring \<Rightarrow> string \<Rightarrow> bool" where
  "is_kind_suppressed cfg doc code = (code \<in> set (ignore cfg) \<or> get_noqas doc code = Some [])"

definition filter_suppressed ::
  "configuration \<Rightarrow> base_docstring \<Rightarrow> string \<Rightarrow> string set \<Rightarrow> string set" where
  "filter_suppressed cfg doc code candidate_names =
     (if is_kind_suppressed cfg doc code then {}
      else (case get_noqas doc code of
              Some (t # ts) \<Rightarrow> candidate_names - set (t # ts)
            | _ \<Rightarrow> candidate_names))"

text \<open>
  Iterating a finite set visits each element once. This is all the theorems below ask
  of the iteration order.
\<close>

definition iterates_sets :: "collaborators \<Rightarrow> bool" where
  "iterates_sets env =
     (\<forall>S. finite S \<longrightarrow> distinct (set_iteration env S) \<and> set (set_iteration env S) = S)"

text \<open>How many errors of class \<open>c\<close> about the name \<open>n\<close> a list holds.\<close>

definition count_errors :: "error_class \<Rightarrow> string \<Rightarrow> darglint_error list \<Rightarrow> nat" where
  "count_errors c n es = length (filter (\<lambda>x. cls x = c \<and> name x = Some n) es)"

text \<open>
  The documented type of an argument name: the entry of the Arguments section's type
  list that stands at the last position where the item list has the name. The outer
  option is None for a name that is not an item, the inner one for an item without a
  type.
\<close>

definition documented_type :: "base_docstring \<Rightarrow> string \<Rightarrow> string option option" where
  "documented_type doc n =
     map_of (rev (zip (or_empty (get_items doc ARGUMENTS_SECTION))
                      (types_or_empty (get_types doc ARGUMENTS_SECTION)))) n"

text \<open>
  A parameter at some position of the signature is mismatched: it is declared with type
  \<open>e\<close>, documented with type \<open>a\<close>, and the two differ.
\<close>

definition mismatched :: "base_docstring \<Rightarrow> string \<Rightarrow> string option \<Rightarrow> bool" where
  "mismatched doc n t =
     (case t of None \<Rightarrow> False
      | Some e \<Rightarrow> (case documented_type doc n of
                     Some (Some a) \<Rightarrow> e \<noteq> a
                   | _ \<Rightarrow> False))"

text \<open>
  A name is suppressed for a code when the suppression index has a target list for the
  code and the list holds the name.
\<close>

definition name_suppressed :: "base_docstring \<Rightarrow> string \<Rightarrow> string \<Rightarrow> bool" where
  "name_suppressed doc code n = (n \<in> set (or_empty (get_noqas doc code)))"

subsection \<open>Instances\<close>

text \<open>
  A code table, a parser and an iteration order to run the checker on. The parser
  knows four docstrings and raises on every other text; sets are iterated in
  lexicographic order.
\<close>

definition example_code :: "error_class \<Rightarrow> string" where
  "example_code c =
     (case c of
        MissingParameterError \<Rightarrow> ''I101'' | ExcessParameterError \<Rightarrow> ''I102''
      | ParameterTypeMismatchError \<Rightarrow> ''I103'' | ParameterTypeMissingError \<Rightarrow> ''I104''
      | MissingReturnError \<Rightarrow> ''I201'' | ExcessReturnError \<Rightarrow> ''I202''
      | ReturnTypeMismatchError \<Rightarrow> ''I203''
      | MissingYieldError \<Rightarrow> ''I301'' | ExcessYieldError \<Rightarrow> ''I302''
      | MissingRaiseError \<Rightarrow> ''I401'' | ExcessRaiseError \<Rightarrow> ''I402''
      | ExcessVariableError \<Rightarrow> ''I501''
      | StyleError s \<Rightarrow> s)"

definition plain_view :: base_docstring where
  "plain_view =
     \<lparr>get_section = (\<lambda>s. None), get_types = (\<lambda>s. NoTypes), get_items = (\<lambda>s. None),
      get_noqas = Map.empty, get_line_numbers = (\<lambda>n. None),
      get_line_numbers_for_value = (\<lambda>n v. None), get_style_errors = [],
      ignore_all = False, satisfies_strictness = (\<lambda>l. False)\<rparr>"

text \<open>A view whose Variables section describes \<open>x\<close>.\<close>

definition view_var_x :: base_docstring where
  "view_var_x =
     plain_view\<lparr>get_items := (\<lambda>s. if s = VARIABLES_SECTION then Some [''x''] else None)\<rparr>"

text \<open>A view with the noqa \<open>I101 a\<close>.\<close>

definition view_noqa_a :: base_docstring where
  "view_noqa_a = plain_view\<lparr>get_noqas := [''I101'' \<mapsto> [''a'']]\<rparr>"

text \<open>A view whose Arguments section documents \<open>x\<close> with type \<open>str\<close>.\<close>

definition view_x_str :: base_docstring where
  "view_x_str =
     plain_view\<lparr>get_items := (\<lambda>s. if s = ARGUMENTS_SECTION then Some [''x''] else None),
                get_types := (\<lambda>s. if s = ARGUMENTS_SECTION then TypeList [Some ''str'']
                                   else NoTypes)\<rparr>"

text \<open>A view with a Returns section of type \<open>str\<close> and no Yields section.\<close>

definition view_returns_str :: base_docstring where
  "view_returns_str =
     plain_view\<lparr>get_section := (\<lambda>s. if s = RETURNS_SECTION then Some ''str: The text.''
                                     else None),
                get_types := (\<lambda>s. if s = RETURNS_SECTION then TypeStr ''str'' else NoTypes),
                get_line_numbers := (\<lambda>n. if n = ''returns-section'' then Some (3, 4) else None)\<rparr>"

definition example_parse :: "string \<Rightarrow> parser_exception + base_docstring" where
  "example_parse text =
     (if text = ''Short.'' then Inr plain_view
      else if text = '':var x: The x.'' then Inr view_var_x
      else if text = '':var x: The x.  # noqa: *'' then Inr (view_var_x\<lparr>ignore_all := True\<rparr>)
      else if text = '':var x: The x.  (short)''
      then Inr (view_var_x\<lparr>satisfies_strictness := (\<lambda>l. l = SHORT_DESCRIPTION)\<rparr>)
      else Inl (ParserException text))"

definition example_env :: collaborators where
  "example_env =
     \<lparr>from_google = example_parse, from_sphinx = example_parse, error_code = example_code,
      set_iteration = sorted_list_of_set\<rparr>"

text \<open>A function at line \<open>l\<close> with docstring \<open>d\<close>, no parameter, no return, no yield.\<close>

definition plain_function :: "int \<Rightarrow> string option \<Rightarrow> function_description" where
  "plain_function l d =
     \<lparr>fd_function = \<lparr>node_name = ''f'', lineno = l\<rparr>, argument_names = [],
      argument_types = [], return_type = None, has_return = False, has_yield = False,
      raises = {}, variables = [], fd_docstring = d\<rparr>"

text \<open>A function declared to return \<open>int\<close>.\<close>

definition fn_int :: function_description where
  "fn_int =
     (plain_function 1 (Some ''Short.''))\<lparr>return_type := Some ''int'', has_return := True\<rparr>"

text \<open>A function with the parameter \<open>x\<close> declared as \<open>int\<close>.\<close>

definition fn_x_int :: function_description where
  "fn_x_int =
     (plain_function 1 (Some ''Short.''))\<lparr>argument_names := [''x''],
                                           argument_types := [Some ''int'']\<rparr>"

subsection \<open>The loop of the parameter type check\<close>

text \<open>What one pass of the loop of \<open>_check_parameter_types\<close> appends for a parameter.\<close>

definition pair_errors ::
  "collaborators \<Rightarrow> base_docstring \<Rightarrow> function_description \<Rightarrow> string \<times> string option
     \<Rightarrow> darglint_error list" where
  "pair_errors env doc f p =
     (case p of (n, t) \<Rightarrow>
        if mismatched doc n t \<and> \<not> name_has_noqa doc (error_code env ParameterTypeMismatchError) n
        then [mk_error ParameterTypeMismatchError f (Some n) t
                (case documented_type doc n of None \<Rightarrow> None | Some a \<Rightarrow> a)
                (or_default (get_line_numbers_for_value doc ''ident'' n)
                            (get_line_numbers doc ''arguments-section''))]
        else [])"

text \<open>
  The parameter presence check in the specification's words: the names missing in the
  docstring are the actual parameters minus the documented arguments, filtered for the
  missing-parameter code; the names in excess are the documented arguments minus the
  actual parameters, filtered for the excess-parameter code.
\<close>

definition missing_in_doc ::
  "collaborators \<Rightarrow> configuration \<Rightarrow> base_docstring \<Rightarrow> function_description \<Rightarrow> string set" where
  "missing_in_doc env cfg doc f =
     filter_suppressed cfg doc (error_code env MissingParameterError)
       (set (argument_names f) - set (or_empty (get_items doc ARGUMENTS_SECTION)))"

definition excess_in_doc ::
  "collaborators \<Rightarrow> configuration \<Rightarrow> base_docstring \<Rightarrow> function_description \<Rightarrow> string set" where
  "excess_in_doc env cfg doc f =
     filter_suppressed cfg doc (error_code env ExcessParameterError)
       (set (or_empty (get_items doc ARGUMENTS_SECTION)) - set (argument_names f))"

text \<open>A function with the parameters \<open>a\<close> and \<open>b\<close>, neither annotated.\<close>

definition fn_a_b :: function_description where
  "fn_a_b =
     (plain_function 1 (Some ''Short.''))\<lparr>argument_names := [''a'', ''b''],
                                           argument_types := [None, None]\<rparr>"

text \<open>The Sphinx configuration with the code of ExcessVariableError ignored globally.\<close>

definition cfg_sphinx_ignore_variable :: configuration where
  "cfg_sphinx_ignore_variable = default_config\<lparr>ignore := [''I501''], style := SPHINX\<rparr>"

text \<open>
  A docstring view that documents \<open>x\<close> and \<open>y\<close> with type \<open>str\<close> and has the noqa
  \<open>I103 x\<close>, and a function that declares both as \<open>int\<close>.
\<close>

definition view_x_y_str_noqa_x :: base_docstring where
  "view_x_y_str_noqa_x =
     plain_view\<lparr>get_items := (\<lambda>s. if s = ARGUMENTS_SECTION then Some [''x'', ''y''] else None),
                get_types := (\<lambda>s. if s = ARGUMENTS_SECTION
                                   then TypeList [Some ''str'', Some ''str''] else NoTypes),
                get_noqas := [''I103'' \<mapsto> [''x'']]\<rparr>"

definition fn_x_y_int :: function_description where
  "fn_x_y_int =
     (plain_function 1 (Some ''Short.''))\<lparr>argument_names := [''x'', ''y''],
                                           argument_types := [Some ''int'', Some ''int'']\<rparr>"

text \<open>
  A function with an undocumented parameter, an undocumented return value and an
  undocumented exception.
\<close>

definition fn_busy :: function_description where
  "fn_busy =
     (plain_function 1 (Some ''Short.''))\<lparr>argument_names := [''a''], argument_types := [None],
                                           has_return := True, raises := {''ValueError''}\<rparr>"



text \<open>
  A function that returns a value, under the Sphinx style, with the local variable
  \<open>x\<close> that its docstring describes.
\<close>

definition fn_reads_x :: function_description where
  "fn_reads_x =
     (plain_function 1 (Some '':var x: The x.''))\<lparr>has_return := True, variables := [''x'']\<rparr>"

section \<open>Properties\<close>

subsection \<open>Auxiliary facts\<close>

lemma iterates_sets_example: "iterates_sets example_env"
  by (simp add: iterates_sets_def example_env_def)

subsection \<open>Suppression\<close>

text \<open>
  C3. \<open>_ignore_error\<close> is the resolver's \<open>is_kind_suppressed\<close> at the code of the error
  class: true exactly when the code is in the global ignore list or the suppression
  index maps it to an empty target list. \<open>_remove_ignored\<close> is \<open>filter_suppressed\<close>:
  the empty set for a suppressed kind, otherwise the candidates minus the non-empty
  target list of the code when the index has one, otherwise the candidates unchanged.
\<close>

theorem suppression_resolver:
  "ignore_error env cfg doc error = is_kind_suppressed cfg doc (error_code env error)
   \<and> remove_ignored env cfg doc candidate_names error
       = filter_suppressed cfg doc (error_code env error) candidate_names"
  by (auto simp: ignore_error_def remove_ignored_def is_kind_suppressed_def
      filter_suppressed_def Let_def split: option.splits list.splits)

subsection \<open>Return and yield presence\<close>

text \<open>
  C6. The return check and the yield check compare the function's flag with the
  presence of the section. When the two agree nothing is appended; a function that
  returns (yields) without the section gets one missing error unless that class is
  suppressed; a section without the return (yield) gets one excess error at the
  section's line numbers unless that class is suppressed.
\<close>

theorem return_yield_presence:
  "(has_return f = truthy (get_section doc RETURNS_SECTION)
      \<longrightarrow> check_return env cfg doc f = [])
   \<and> (has_return f \<and> \<not> truthy (get_section doc RETURNS_SECTION)
      \<longrightarrow> check_return env cfg doc f =
           (if ignore_error env cfg doc MissingReturnError then []
            else [mk_error MissingReturnError f None None None None]))
   \<and> (truthy (get_section doc RETURNS_SECTION) \<and> \<not> has_return f
      \<longrightarrow> check_return env cfg doc f =
           (if ignore_error env cfg doc ExcessReturnError then []
            else [mk_error ExcessReturnError f None None None
                    (get_line_numbers doc ''returns-section'')]))
   \<and> (has_yield f = truthy (get_section doc YIELDS_SECTION)
      \<longrightarrow> check_yield env cfg doc f = [])
   \<and> (has_yield f \<and> \<not> truthy (get_section doc YIELDS_SECTION)
      \<longrightarrow> check_yield env cfg doc f =
           (if ignore_error env cfg doc MissingYieldError then []
            else [mk_error MissingYieldError f None None None None]))
   \<and> (truthy (get_section doc YIELDS_SECTION) \<and> \<not> has_yield f
      \<longrightarrow> check_yield env cfg doc f =
           (if ignore_error env cfg doc ExcessYieldError then []
            else [mk_error ExcessYieldError f None None None
                    (get_line_numbers doc ''yields-section'')]))"
  by (simp add: check_return_def check_yield_def Let_def)

text \<open>
  The scenario of the specification: a function that yields and does not return, a
  docstring with a Returns section and no Yields section, nothing suppressed. The return
  check appends one ExcessReturn error, the yield check one MissingYield error.
\<close>

theorem return_yield_presence_witness:
  "check_return example_env default_config view_returns_str
       ((plain_function 1 (Some ''Short.''))\<lparr>has_yield := True\<rparr>)
     = [mk_error ExcessReturnError ((plain_function 1 (Some ''Short.''))\<lparr>has_yield := True\<rparr>)
          None None None (Some (3, 4))]
   \<and> check_yield example_env default_config view_returns_str
       ((plain_function 1 (Some ''Short.''))\<lparr>has_yield := True\<rparr>)
     = [mk_error MissingYieldError ((plain_function 1 (Some ''Short.''))\<lparr>has_yield := True\<rparr>)
          None None None None]"
  using return_yield_presence [of "(plain_function 1 (Some ''Short.''))\<lparr>has_yield := True\<rparr>"
      view_returns_str example_env default_config]
  by (simp add: view_returns_str_def plain_view_def plain_function_def truthy_def
      ignore_error_def default_config_def example_env_def example_code_def)

subsection \<open>Parameter types\<close>

lemma map_of_foldl_update:
  "map_of (foldl (\<lambda>d (k, v). AList.update k v d) d0 kvs) = map_of d0 ++ map_of (rev kvs)"
proof (induction kvs arbitrary: d0)
  case Nil
  show ?case by simp
next
  case (Cons p kvs)
  obtain k v where p: "p = (k, v)" by (cases p)
  have "map_of (foldl (\<lambda>d (k, v). AList.update k v d) d0 (p # kvs))
          = map_of (AList.update k v d0) ++ map_of (rev kvs)"
    using Cons.IH [of "AList.update k v d0"] by (simp add: p)
  also have "\<dots> = map_of d0 ++ map_of (rev (p # kvs))"
    by (simp add: p update_conv')
  finally show ?case .
qed

lemma map_of_py_dict: "map_of (py_dict kvs) = map_of (rev kvs)"
  by (simp add: py_dict_def map_of_foldl_update)

lemma zip_zip_map:
  "zip xs (zip ys (map h xs)) = map (\<lambda>(x, y). (x, y, h x)) (zip xs ys)"
proof (induction xs arbitrary: ys)
  case Nil
  show ?case by simp
next
  case (Cons x xs)
  show ?case by (cases ys) (simp_all add: Cons.IH)
qed

lemma check_parameter_types_pairs:
  "check_parameter_types env cfg doc f =
     (if ignore_error env cfg doc ParameterTypeMismatchError then []
      else concat (map (pair_errors env doc f) (zip (argument_names f) (argument_types f))))"
  apply (simp add: check_parameter_types_def Let_def zip_zip_map map_of_py_dict
      documented_type_def [symmetric])
  apply (intro impI arg_cong [where f = concat] map_cong refl)
  apply (auto simp: pair_errors_def mismatched_def split: option.splits)
  done

lemma in_pair_errors:
  "(x \<in> set (pair_errors env doc f (m, t))) =
     (\<exists>e a. t = Some e \<and> documented_type doc m = Some (Some a) \<and> e \<noteq> a \<and>
         \<not> name_has_noqa doc (error_code env ParameterTypeMismatchError) m \<and>
         x = mk_error ParameterTypeMismatchError f (Some m) (Some e) (Some a)
               (or_default (get_line_numbers_for_value doc ''ident'' m)
                           (get_line_numbers doc ''arguments-section'')))"
  by (auto simp: pair_errors_def mismatched_def split: option.splits)

lemma count_pair_errors_one:
  "length (filter (\<lambda>x. cls x = ParameterTypeMismatchError \<and> name x = Some n)
             (pair_errors env doc f (m, t)))
     = (if m = n \<and> mismatched doc n t
           \<and> \<not> name_has_noqa doc (error_code env ParameterTypeMismatchError) n then 1 else 0)"
  by (simp add: pair_errors_def mk_error_def)

lemma count_pair_errors:
  "count_errors ParameterTypeMismatchError n (concat (map (pair_errors env doc f) zs))
     = (if name_has_noqa doc (error_code env ParameterTypeMismatchError) n then 0
        else length (filter (\<lambda>(m, t). m = n \<and> mismatched doc n t) zs))"
proof (induction zs)
  case Nil
  show ?case by (simp add: count_errors_def)
next
  case (Cons z zs)
  obtain m t where z: "z = (m, t)" by (cases z)
  show ?case
    using Cons.IH by (simp add: count_errors_def z count_pair_errors_one)
qed

lemma in_check_parameter_types:
  "(x \<in> set (check_parameter_types env cfg doc f)) =
     (\<not> ignore_error env cfg doc ParameterTypeMismatchError \<and>
      (\<exists>m e a. (m, Some e) \<in> set (zip (argument_names f) (argument_types f)) \<and>
         documented_type doc m = Some (Some a) \<and> e \<noteq> a \<and>
         \<not> name_has_noqa doc (error_code env ParameterTypeMismatchError) m \<and>
         x = mk_error ParameterTypeMismatchError f (Some m) (Some e) (Some a)
               (or_default (get_line_numbers_for_value doc ''ident'' m)
                           (get_line_numbers doc ''arguments-section''))))"
proof (cases "ignore_error env cfg doc ParameterTypeMismatchError")
  case True
  then show ?thesis by (simp add: check_parameter_types_pairs)
next
  case False
  let ?zs = "zip (argument_names f) (argument_types f)"
  have "(x \<in> set (check_parameter_types env cfg doc f))
          = (\<exists>m t. (m, t) \<in> set ?zs \<and> x \<in> set (pair_errors env doc f (m, t)))"
    by (simp add: check_parameter_types_pairs False) auto
  also have "\<dots> = (\<exists>m e a. (m, Some e) \<in> set ?zs \<and>
         documented_type doc m = Some (Some a) \<and> e \<noteq> a \<and>
         \<not> name_has_noqa doc (error_code env ParameterTypeMismatchError) m \<and>
         x = mk_error ParameterTypeMismatchError f (Some m) (Some e) (Some a)
               (or_default (get_line_numbers_for_value doc ''ident'' m)
                           (get_line_numbers doc ''arguments-section'')))"
    unfolding in_pair_errors by blast
  finally show ?thesis using False by simp
qed

lemma count_check_parameter_types:
  "count_errors ParameterTypeMismatchError n (check_parameter_types env cfg doc f) =
      (if ignore_error env cfg doc ParameterTypeMismatchError
          \<or> name_has_noqa doc (error_code env ParameterTypeMismatchError) n then 0
       else length (filter (\<lambda>(m, t). m = n \<and> mismatched doc n t)
                      (zip (argument_names f) (argument_types f))))"
  unfolding check_parameter_types_pairs
  by (simp add: count_pair_errors) (simp add: count_errors_def)

subsection \<open>Return type\<close>

text \<open>
  C7, as the claim states it, fails: the function declares \<open>int\<close>, the docstring
  declares the single return type \<open>str\<close>, the two differ, and no error is appended,
  because the code of the class is in the global ignore list.
\<close>

theorem return_type_mismatch_counterexample:
  "return_type fn_int = Some ''int''
   \<and> get_types view_returns_str RETURNS_SECTION = TypeStr ''str''
   \<and> ''int'' \<noteq> ''str''
   \<and> error_code example_env ReturnTypeMismatchError = ''I203''
   \<and> check_return_type example_env (default_config\<lparr>ignore := [''I203'']\<rparr>)
        view_returns_str fn_int = []"
  by (simp add: fn_int_def plain_function_def view_returns_str_def plain_view_def
      check_return_type_def ignore_error_def example_env_def example_code_def default_config_def)

text \<open>
  C7, amended. The return type check appends an error if and only if the class is not
  suppressed (neither by the global ignore list nor by a noqa for the whole docstring),
  the function declares a return type, the docstring declares one non-empty return type
  and the two differ. The error is then the only one appended, with the declared type as
  \<open>expected\<close> and the documented type as \<open>actual\<close>. When the docstring's entry is a
  list, nothing is compared and nothing appended.
\<close>

theorem return_type_mismatch:
  "(check_return_type env cfg doc f \<noteq> []) =
      (\<not> ignore_error env cfg doc ReturnTypeMismatchError \<and>
       (\<exists>e a. return_type f = Some e \<and> get_types doc RETURNS_SECTION = TypeStr a
              \<and> a \<noteq> [] \<and> e \<noteq> a))
   \<and> (\<forall>e a. check_return_type env cfg doc f \<noteq> [] \<longrightarrow> return_type f = Some e
          \<longrightarrow> get_types doc RETURNS_SECTION = TypeStr a
          \<longrightarrow> check_return_type env cfg doc f =
                [mk_error ReturnTypeMismatchError f None (Some e) (Some a)
                   (get_line_numbers doc ''returns-section'')])
   \<and> (\<forall>ts. get_types doc RETURNS_SECTION = TypeList ts
          \<longrightarrow> check_return_type env cfg doc f = [])"
  by (auto simp: check_return_type_def Let_def split: option.splits types_value.splits if_splits)

text \<open>The same function and docstring with nothing suppressed: one error.\<close>

theorem return_type_mismatch_witness:
  "check_return_type example_env default_config view_returns_str fn_int
     = [mk_error ReturnTypeMismatchError fn_int None (Some ''int'') (Some ''str'') (Some (3, 4))]"
  using return_type_mismatch [of example_env default_config view_returns_str fn_int]
  by (simp add: fn_int_def plain_function_def view_returns_str_def plain_view_def
      ignore_error_def example_env_def example_code_def default_config_def)

subsection \<open>Parameter presence\<close>

lemma remove_ignored_filter:
  "remove_ignored env cfg doc candidate_names error
       = filter_suppressed cfg doc (error_code env error) candidate_names"
  by (auto simp: ignore_error_def remove_ignored_def is_kind_suppressed_def
      filter_suppressed_def Let_def split: option.splits list.splits)

lemma filter_suppressed_subset: "filter_suppressed cfg doc code S \<subseteq> S"
  by (auto simp: filter_suppressed_def split: option.splits list.splits)

lemma finite_missing_in_doc: "finite (missing_in_doc env cfg doc f)"
  unfolding missing_in_doc_def
  by (rule finite_subset [OF filter_suppressed_subset]) simp

lemma finite_excess_in_doc: "finite (excess_in_doc env cfg doc f)"
  unfolding excess_in_doc_def
  by (rule finite_subset [OF filter_suppressed_subset]) simp

lemma count_distinct:
  "distinct xs \<Longrightarrow> length (filter (\<lambda>m. m = n) xs) = (if n \<in> set xs then 1 else 0)"
  by (induction xs) auto

lemma check_parameters_lists:
  "check_parameters env cfg doc f =
     map (\<lambda>missing. mk_error MissingParameterError f (Some missing) None None
                       (get_line_numbers doc ''arguments-section''))
         (set_iteration env (missing_in_doc env cfg doc f))
     @ map (\<lambda>missing. mk_error ExcessParameterError f (Some missing) None None
                       (or_default (get_line_numbers_for_value doc ''arguments-section'' missing)
                                   (get_line_numbers doc ''arguments-section'')))
         (set_iteration env (excess_in_doc env cfg doc f))"
  by (simp add: check_parameters_def Let_def remove_ignored_filter missing_in_doc_def
      excess_in_doc_def)

lemma count_errors_append:
  "count_errors c n (xs @ ys) = count_errors c n xs + count_errors c n ys"
  by (simp add: count_errors_def)

lemma count_errors_map_same:
  "count_errors c n (map (\<lambda>m. mk_error c f (Some m) e a (l m)) xs)
     = length (filter (\<lambda>m. m = n) xs)"
  by (induction xs) (simp_all add: count_errors_def mk_error_def)

lemma count_errors_map_other:
  "c \<noteq> c' \<Longrightarrow> count_errors c n (map (\<lambda>m. mk_error c' f (Some m) e a (l m)) xs) = 0"
  by (induction xs) (simp_all add: count_errors_def mk_error_def)

text \<open>
  C4. With \<open>A\<close> the actual parameter names and \<open>D\<close> the documented argument names, the
  parameter presence check appends exactly one MissingParameter error for each name of
  \<open>A - D\<close> that survives suppression, exactly one ExcessParameter error for each name of
  \<open>D - A\<close> that survives, and nothing else; with \<open>A = D\<close> it appends nothing.
\<close>

theorem parameter_presence:
  assumes "iterates_sets env"
  shows "count_errors MissingParameterError n (check_parameters env cfg doc f)
           = (if n \<in> missing_in_doc env cfg doc f then 1 else 0)
       \<and> count_errors ExcessParameterError n (check_parameters env cfg doc f)
           = (if n \<in> excess_in_doc env cfg doc f then 1 else 0)
       \<and> length (check_parameters env cfg doc f)
           = card (missing_in_doc env cfg doc f) + card (excess_in_doc env cfg doc f)
       \<and> (set (argument_names f) = set (or_empty (get_items doc ARGUMENTS_SECTION))
            \<longrightarrow> check_parameters env cfg doc f = [])"
proof -
  let ?M = "missing_in_doc env cfg doc f" and ?E = "excess_in_doc env cfg doc f"
  have M: "distinct (set_iteration env ?M)" "set (set_iteration env ?M) = ?M"
    using assms finite_missing_in_doc [of env cfg doc f] by (simp_all add: iterates_sets_def)
  have E: "distinct (set_iteration env ?E)" "set (set_iteration env ?E) = ?E"
    using assms finite_excess_in_doc [of env cfg doc f] by (simp_all add: iterates_sets_def)
  have c1: "count_errors MissingParameterError n (check_parameters env cfg doc f)
           = (if n \<in> ?M then 1 else 0)"
    using count_distinct [OF M(1), of n]
    by (simp add: check_parameters_lists count_errors_append count_errors_map_same
        count_errors_map_other M(2))
  have c2: "count_errors ExcessParameterError n (check_parameters env cfg doc f)
           = (if n \<in> ?E then 1 else 0)"
    using count_distinct [OF E(1), of n]
    by (simp add: check_parameters_lists count_errors_append count_errors_map_same
        count_errors_map_other E(2))
  have c3: "length (check_parameters env cfg doc f) = card ?M + card ?E"
    using distinct_card [OF M(1)] distinct_card [OF E(1)]
    by (simp add: check_parameters_lists M(2) E(2))
  have c4: "set (argument_names f) = set (or_empty (get_items doc ARGUMENTS_SECTION))
            \<longrightarrow> check_parameters env cfg doc f = []"
  proof
    assume eq: "set (argument_names f) = set (or_empty (get_items doc ARGUMENTS_SECTION))"
    have "?M = {}" "?E = {}"
      using filter_suppressed_subset [of cfg doc _ "{}"]
      by (auto simp: missing_in_doc_def excess_in_doc_def eq)
    with c3 show "check_parameters env cfg doc f = []" by simp
  qed
  from c1 c2 c3 c4 show ?thesis by blast
qed

text \<open>
  The scenario of the specification: parameters \<open>a\<close> and \<open>b\<close>, nothing documented,
  the missing-parameter code suppressed for \<open>a\<close> only. One error, for \<open>b\<close>.
\<close>

theorem parameter_presence_witness:
  "iterates_sets example_env
   \<and> missing_in_doc example_env default_config view_noqa_a fn_a_b = {''b''}
   \<and> excess_in_doc example_env default_config view_noqa_a fn_a_b = {}
   \<and> count_errors MissingParameterError ''a''
        (check_parameters example_env default_config view_noqa_a fn_a_b) = 0
   \<and> count_errors MissingParameterError ''b''
        (check_parameters example_env default_config view_noqa_a fn_a_b) = 1
   \<and> length (check_parameters example_env default_config view_noqa_a fn_a_b) = 1
   \<and> check_parameters example_env default_config view_noqa_a fn_a_b
        = [mk_error MissingParameterError fn_a_b (Some ''b'') None None None]"
proof -
  have M: "missing_in_doc example_env default_config view_noqa_a fn_a_b = {''b''}"
    by (auto simp: missing_in_doc_def filter_suppressed_def is_kind_suppressed_def
        example_env_def example_code_def default_config_def view_noqa_a_def plain_view_def
        fn_a_b_def plain_function_def or_empty_def)
  have E: "excess_in_doc example_env default_config view_noqa_a fn_a_b = {}"
    by (auto simp: excess_in_doc_def filter_suppressed_def is_kind_suppressed_def
        example_env_def example_code_def default_config_def view_noqa_a_def plain_view_def
        fn_a_b_def plain_function_def or_empty_def)
  have R: "check_parameters example_env default_config view_noqa_a fn_a_b
        = [mk_error MissingParameterError fn_a_b (Some ''b'') None None None]"
    by (simp add: check_parameters_lists M E)
      (simp add: example_env_def view_noqa_a_def plain_view_def)
  show ?thesis
    using parameter_presence [OF iterates_sets_example, of "''a''" default_config view_noqa_a fn_a_b]
      parameter_presence [OF iterates_sets_example, of "''b''" default_config view_noqa_a fn_a_b]
    by (simp add: iterates_sets_example M E R)
qed

subsection \<open>The global ignore list\<close>

lemma ignore_error_global:
  "error_code env c \<in> set (ignore cfg) \<Longrightarrow> ignore_error env cfg doc c"
  by (simp add: ignore_error_def)

lemma remove_ignored_global:
  "error_code env c \<in> set (ignore cfg) \<Longrightarrow> remove_ignored env cfg doc S c = {}"
  by (simp add: remove_ignored_def ignore_error_global)

lemma set_iteration_empty:
  assumes "iterates_sets env"
  shows "set_iteration env {} = []"
proof -
  have "set (set_iteration env {}) = {}"
    using assms unfolding iterates_sets_def by blast
  then show ?thesis by simp
qed

lemma check_parameters_ignore:
  assumes "iterates_sets env" and "x \<in> set (check_parameters env cfg doc f)"
  shows "error_code env (cls x) \<notin> set (ignore cfg)"
proof
  assume "error_code env (cls x) \<in> set (ignore cfg)"
  moreover from assms(2) have "cls x = MissingParameterError \<and>
      set_iteration env (remove_ignored env cfg doc
         (set (argument_names f) - set (or_empty (get_items doc ARGUMENTS_SECTION)))
         MissingParameterError) \<noteq> []
    \<or> cls x = ExcessParameterError \<and>
      set_iteration env (remove_ignored env cfg doc
         (set (or_empty (get_items doc ARGUMENTS_SECTION)) - set (argument_names f))
         ExcessParameterError) \<noteq> []"
    by (auto simp: check_parameters_def Let_def mk_error_def)
  ultimately show False
    using set_iteration_empty [OF assms(1)] by (auto simp: remove_ignored_global)
qed

lemma check_raises_ignore:
  assumes "iterates_sets env" and "x \<in> set (check_raises env cfg doc f)"
  shows "error_code env (cls x) \<notin> set (ignore cfg)"
proof
  assume "error_code env (cls x) \<in> set (ignore cfg)"
  moreover from assms(2) have "cls x = MissingRaiseError \<and>
      set_iteration env (remove_ignored env cfg doc
         (raises f - set (or_empty (get_items doc RAISES_SECTION)))
         MissingRaiseError) \<noteq> []
    \<or> cls x = ExcessRaiseError \<and>
      set_iteration env (remove_ignored env cfg doc
         (set (or_empty (get_items doc RAISES_SECTION)) - raises f)
         ExcessRaiseError) \<noteq> []"
    by (auto simp: check_raises_def Let_def mk_error_def)
  ultimately show False
    using set_iteration_empty [OF assms(1)] by (auto simp: remove_ignored_global)
qed

lemma check_parameter_types_ignore:
  "x \<in> set (check_parameter_types env cfg doc f) \<Longrightarrow> error_code env (cls x) \<notin> set (ignore cfg)"
  using ignore_error_global [of env ParameterTypeMismatchError cfg doc]
  by (auto simp: in_check_parameter_types mk_error_def)

lemma check_parameter_types_missing_ignore:
  "x \<in> set (check_parameter_types_missing env cfg doc f)
     \<Longrightarrow> error_code env (cls x) \<notin> set (ignore cfg)"
  using ignore_error_global [of env ParameterTypeMissingError cfg doc]
  by (auto simp: check_parameter_types_missing_def Let_def mk_error_def split: if_splits)

lemma check_return_ignore:
  "x \<in> set (check_return env cfg doc f) \<Longrightarrow> error_code env (cls x) \<notin> set (ignore cfg)"
  using ignore_error_global [of env MissingReturnError cfg doc]
    ignore_error_global [of env ExcessReturnError cfg doc]
  by (auto simp: check_return_def Let_def mk_error_def split: if_splits)

lemma check_yield_ignore:
  "x \<in> set (check_yield env cfg doc f) \<Longrightarrow> error_code env (cls x) \<notin> set (ignore cfg)"
  using ignore_error_global [of env MissingYieldError cfg doc]
    ignore_error_global [of env ExcessYieldError cfg doc]
  by (auto simp: check_yield_def Let_def mk_error_def split: if_splits)

lemma check_return_type_ignore:
  "x \<in> set (check_return_type env cfg doc f) \<Longrightarrow> error_code env (cls x) \<notin> set (ignore cfg)"
  using ignore_error_global [of env ReturnTypeMismatchError cfg doc]
  by (auto simp: check_return_type_def Let_def mk_error_def
      split: if_splits option.splits types_value.splits)

text \<open>Every check of the battery but the style check respects the global ignore list.\<close>

lemma battery_respects_ignore:
  assumes "iterates_sets env" and "x \<in> set (battery env cfg doc f)"
    and "error_code env (cls x) \<in> set (ignore cfg)"
  shows "x \<in> set (check_style env cfg doc f)"
  using assms check_parameters_ignore [of env x cfg doc f] check_raises_ignore [of env x cfg doc f]
    check_parameter_types_ignore [of x env cfg doc f]
    check_parameter_types_missing_ignore [of x env cfg doc f]
    check_return_ignore [of x env cfg doc f] check_yield_ignore [of x env cfg doc f]
    check_return_type_ignore [of x env cfg doc f]
  by (auto simp: battery_def)

text \<open>
  C1. The claim asks that no error whose code is in the global ignore list is ever
  appended, ExcessVariable errors under the Sphinx style included. The variables check
  never asks \<open>_ignore_error\<close>, as every other check of the battery does: with the
  Sphinx style, the code of ExcessVariableError in the ignore list, and a docstring that
  describes a variable \<open>x\<close> the function does not have, the run appends an
  ExcessVariable error and the report receives it.
\<close>

theorem ignored_excess_variable_reported:
  "error_code example_env ExcessVariableError = ''I501''
   \<and> ''I501'' \<in> set (ignore cfg_sphinx_ignore_variable)
   \<and> errors (schedule example_env (init_checker cfg_sphinx_ignore_variable False)
               (plain_function 1 (Some '':var x: The x.'')))
       = [mk_error ExcessVariableError (plain_function 1 (Some '':var x: The x.''))
            (Some ''x'') None None None]
   \<and> get_error_report
        (schedule example_env (init_checker cfg_sphinx_ignore_variable False)
           (plain_function 1 (Some '':var x: The x.''))) 1 ''f.py'' None
       = Inr \<lparr>report_errors =
                [mk_error ExcessVariableError (plain_function 1 (Some '':var x: The x.''))
                   (Some ''x'') None None None],
              report_filename = ''f.py'', report_verbosity = 1,
              report_message_template = None\<rparr>"
  by (simp add: schedule_def run_checks_def Let_def init_checker_def
      cfg_sphinx_ignore_variable_def default_config_def example_env_def example_parse_def
      example_code_def plain_function_def view_var_x_def plain_view_def check_variables_def
      battery_def check_parameters_def check_parameter_types_def
      check_parameter_types_missing_def check_return_def check_return_type_def
      check_yield_def check_raises_def check_style_def remove_ignored_def ignore_error_def
      or_empty_def or_default_def types_or_empty_def py_dict_def truthy_def mk_error_def
      get_error_report_def ErrorReport_def)

subsection \<open>The early returns of a run\<close>

text \<open>The two early returns of a run skip the battery, not the variables check.\<close>

lemma run_checks_short_circuit:
  assumes "fd_docstring f = Some text"
    and "(case style (config self) of GOOGLE \<Rightarrow> from_google env text
          | SPHINX \<Rightarrow> from_sphinx env text) = Inr doc"
    and "ignore_all doc \<or> strictness (config self) \<noteq> FULL_DESCRIPTION
           \<and> satisfies_strictness doc (strictness (config self))"
  shows "errors (schedule env self f) =
           errors self @ (case style (config self) of GOOGLE \<Rightarrow> []
                          | SPHINX \<Rightarrow> check_variables env (config self) doc f)"
  using assms
  by (auto simp: schedule_def run_checks_def Let_def split: docstring_style.splits)

text \<open>
  C2. The claim asks that a run whose docstring has the ignore-all flag, or satisfies a
  strictness level below the full description, appends no error at all, ExcessVariable
  under the Sphinx style included. Under the Sphinx style the variables check runs
  before both early returns: the run still appends the ExcessVariable error for \<open>x\<close>,
  with the ignore-all flag as with the satisfied strictness level.
\<close>

theorem ignore_all_excess_variable_reported:
  "ignore_all (view_var_x\<lparr>ignore_all := True\<rparr>)
   \<and> from_sphinx example_env '':var x: The x.  # noqa: *'' = Inr (view_var_x\<lparr>ignore_all := True\<rparr>)
   \<and> errors (schedule example_env (init_checker (default_config\<lparr>style := SPHINX\<rparr>) False)
               (plain_function 1 (Some '':var x: The x.  # noqa: *'')))
       = [mk_error ExcessVariableError (plain_function 1 (Some '':var x: The x.  # noqa: *''))
            (Some ''x'') None None None]
   \<and> satisfies_strictness (view_var_x\<lparr>satisfies_strictness := (\<lambda>l. l = SHORT_DESCRIPTION)\<rparr>)
        SHORT_DESCRIPTION
   \<and> errors (schedule example_env
               (init_checker (default_config\<lparr>style := SPHINX, strictness := SHORT_DESCRIPTION\<rparr>)
                  False)
               (plain_function 1 (Some '':var x: The x.  (short)'')))
       = [mk_error ExcessVariableError (plain_function 1 (Some '':var x: The x.  (short)''))
            (Some ''x'') None None None]"
  by (simp add: schedule_def run_checks_def Let_def init_checker_def
      default_config_def example_env_def example_parse_def
      example_code_def plain_function_def view_var_x_def plain_view_def check_variables_def
      or_empty_def or_default_def mk_error_def)

subsection \<open>The report\<close>

text \<open>\<open>_sort\<close>, where it is called on an unsorted collection, sorts by line and is stable.\<close>

lemma sort_errors_stable:
  assumes "\<not> sorted_flag self"
  shows "sorted (map (\<lambda>x. lineno (fn_node x)) (errors (sort_errors self)))"
    and "length (errors (sort_errors self)) = length (errors self)"
    and "filter (\<lambda>x. lineno (fn_node x) = l) (errors (sort_errors self))
           = filter (\<lambda>x. lineno (fn_node x) = l) (errors self)"
  using assms by (simp_all add: sort_errors_def sort_key_stable)

subsection \<open>Parser exceptions\<close>

text \<open>A parser exception leaves the collection as it was, whatever \<open>raise_errors\<close> is.\<close>

lemma parser_fault_swallowed:
  assumes "fd_docstring f = Some text"
    and "(case style (config self) of GOOGLE \<Rightarrow> from_google env text
          | SPHINX \<Rightarrow> from_sphinx env text) = Inl e"
  shows "schedule env self f = self\<lparr>executor := executor self @ [Some e]\<rparr>"
  using assms by (simp add: schedule_def run_checks_def)

lemma raise_errors_unused:
  "schedule env (self\<lparr>raise_errors := b\<rparr>) f = (schedule env self f)\<lparr>raise_errors := b\<rparr>"
  by (auto simp: schedule_def run_checks_def Let_def
      split: option.splits sum.splits docstring_style.splits)

text \<open>
  C9. The claim asks that with \<open>raise_errors\<close> true an exception of the parser leaves
  \<open>get_error_report\<close>. The field is stored and never read: the exception stays in
  the dropped future, and \<open>get_error_report\<close> returns a report, here an empty one.
\<close>

theorem strict_mode_swallows_fault:
  "from_google example_env ''Args: x'' = Inl (ParserException ''Args: x'')
   \<and> schedule example_env (init_checker default_config True)
        (plain_function 1 (Some ''Args: x''))
       = (init_checker default_config True)\<lparr>executor := [Some (ParserException ''Args: x'')]\<rparr>
   \<and> get_error_report
        (schedule example_env (init_checker default_config True)
           (plain_function 1 (Some ''Args: x''))) 1 ''f.py'' None
       = Inr \<lparr>report_errors = [], report_filename = ''f.py'', report_verbosity = 1,
              report_message_template = None\<rparr>"
  by (simp add: schedule_def run_checks_def Let_def init_checker_def
      default_config_def example_env_def example_parse_def plain_function_def
      get_error_report_def ErrorReport_def truthy_def)

subsection \<open>Parameter types: the claim and its amendment\<close>

lemma ignore_error_kind:
  "ignore_error env cfg doc error = is_kind_suppressed cfg doc (error_code env error)"
  by (auto simp: ignore_error_def is_kind_suppressed_def Let_def split: option.splits)

lemma name_has_noqa_suppressed: "name_has_noqa doc code n = name_suppressed doc code n"
  by (simp add: name_has_noqa_def name_suppressed_def or_empty_def split: option.splits)

text \<open>
  C5, as the claim states it, fails: in its own scenario, \<open>x\<close> declared \<open>int\<close> and
  documented \<open>str\<close> with no noqa entry, no error is appended when the code of the class
  is in the global ignore list. The check returns at its first statement then.
\<close>

theorem parameter_type_mismatch_counterexample:
  "(''x'', Some ''int'') \<in> set (zip (argument_names fn_x_int) (argument_types fn_x_int))
   \<and> documented_type view_x_str ''x'' = Some (Some ''str'')
   \<and> ''int'' \<noteq> ''str''
   \<and> get_noqas view_x_str ''I103'' = None
   \<and> error_code example_env ParameterTypeMismatchError = ''I103''
   \<and> check_parameter_types example_env (default_config\<lparr>ignore := [''I103'']\<rparr>)
        view_x_str fn_x_int = []"
  by (simp add: check_parameter_types_def fn_x_int_def plain_function_def view_x_str_def
      plain_view_def ignore_error_def example_env_def example_code_def default_config_def
      documented_type_def or_empty_def types_or_empty_def)

text \<open>
  C5, amended. Unless the mismatch code is suppressed as a whole (by the global ignore
  list or by a noqa for the whole docstring), the parameter type check appends an error
  for a parameter exactly when the parameter is declared with a type \<open>e\<close>, the
  docstring documents it with a type \<open>a\<close>, the two differ, and the name has no noqa
  entry for the mismatch code; a pair with either type absent is skipped. The error
  carries \<open>expected = e\<close> (the type declared in the code) and \<open>actual = a\<close> (the type
  of the docstring). Each position of the signature gives at most one error: the errors
  about the name \<open>n\<close> are as many as the mismatched positions that hold \<open>n\<close>, and
  none when \<open>n\<close> has a noqa entry.
\<close>

theorem parameter_type_mismatch:
  "(x \<in> set (check_parameter_types env cfg doc f)) =
     (\<not> is_kind_suppressed cfg doc (error_code env ParameterTypeMismatchError) \<and>
      (\<exists>m e a. (m, Some e) \<in> set (zip (argument_names f) (argument_types f)) \<and>
         documented_type doc m = Some (Some a) \<and> e \<noteq> a \<and>
         \<not> name_suppressed doc (error_code env ParameterTypeMismatchError) m \<and>
         x = mk_error ParameterTypeMismatchError f (Some m) (Some e) (Some a)
               (or_default (get_line_numbers_for_value doc ''ident'' m)
                           (get_line_numbers doc ''arguments-section''))))
   \<and> count_errors ParameterTypeMismatchError n (check_parameter_types env cfg doc f) =
      (if is_kind_suppressed cfg doc (error_code env ParameterTypeMismatchError)
          \<or> name_suppressed doc (error_code env ParameterTypeMismatchError) n then 0
       else length (filter (\<lambda>(m, t). m = n \<and> mismatched doc n t)
                      (zip (argument_names f) (argument_types f))))"
  using in_check_parameter_types [of x env cfg doc f]
    count_check_parameter_types [of n env cfg doc f]
  by (simp only: ignore_error_kind name_has_noqa_suppressed)

text \<open>
  The scenario of the specification with nothing suppressed: one error, with
  \<open>expected = int\<close> and \<open>actual = str\<close>. And two mismatched parameters \<open>x\<close> and
  \<open>y\<close> with a noqa entry for \<open>x\<close>: one error, for \<open>y\<close>.
\<close>

theorem parameter_type_mismatch_witness:
  "check_parameter_types example_env default_config view_x_str fn_x_int
     = [mk_error ParameterTypeMismatchError fn_x_int (Some ''x'') (Some ''int'') (Some ''str'') None]
   \<and> count_errors ParameterTypeMismatchError ''x''
        (check_parameter_types example_env default_config view_x_str fn_x_int) = 1
   \<and> name_suppressed view_x_y_str_noqa_x (error_code example_env ParameterTypeMismatchError) ''x''
   \<and> check_parameter_types example_env default_config view_x_y_str_noqa_x fn_x_y_int
     = [mk_error ParameterTypeMismatchError fn_x_y_int (Some ''y'') (Some ''int'') (Some ''str'')
          None]
   \<and> count_errors ParameterTypeMismatchError ''x''
        (check_parameter_types example_env default_config view_x_y_str_noqa_x fn_x_y_int) = 0
   \<and> count_errors ParameterTypeMismatchError ''y''
        (check_parameter_types example_env default_config view_x_y_str_noqa_x fn_x_y_int) = 1"
  using parameter_type_mismatch [of _ example_env default_config view_x_str fn_x_int "''x''"]
    parameter_type_mismatch [of _ example_env default_config view_x_y_str_noqa_x fn_x_y_int "''x''"]
    parameter_type_mismatch [of _ example_env default_config view_x_y_str_noqa_x fn_x_y_int "''y''"]
  by (simp add: check_parameter_types_def fn_x_int_def fn_x_y_int_def plain_function_def
      view_x_str_def view_x_y_str_noqa_x_def
      plain_view_def ignore_error_def example_env_def example_code_def default_config_def
      py_dict_def or_empty_def types_or_empty_def name_has_noqa_def or_default_def
      mismatched_def documented_type_def name_suppressed_def is_kind_suppressed_def)

subsection \<open>The order of the report\<close>





subsection \<open>Scheduling a function twice\<close>

lemma schedule_config: "config (schedule env self f) = config self"
  by (auto simp: schedule_def run_checks_def Let_def
      split: option.splits sum.splits docstring_style.splits)

lemma schedule_appends:
  assumes "fd_docstring f = Some raw"
    and "(case style (config self) of GOOGLE \<Rightarrow> from_google env raw
          | SPHINX \<Rightarrow> from_sphinx env raw) = Inr doc"
  shows "errors (schedule env self f)
           = errors self @ variables_appends env (config self) doc f
               @ battery_appends env (config self) doc f"
  using assms
  by (auto simp: schedule_def run_checks_def Let_def variables_appends_def battery_appends_def
      battery_def split: docstring_style.splits)

lemma mk_error_variables:
  "mk_error c (f\<lparr>variables := vs\<rparr>) n e a l = mk_error c f n e a l"
  by (simp add: mk_error_def)

lemma battery_appends_variables:
  "battery_appends env cfg doc (f\<lparr>variables := vs\<rparr>) = battery_appends env cfg doc f"
  by (simp add: battery_appends_def check_parameters_def check_parameter_types_def
      check_parameter_types_missing_def check_return_def check_return_type_def
      check_yield_def check_raises_def check_style_def mk_error_variables Let_def
      cong: option.case_cong if_cong)

lemma sum_list_concat_Nil:
  "concat pending = [] \<Longrightarrow> sum_list (map (\<lambda>p. count_list p x) pending) = (0::nat)"
  by (induction pending) simp_all

lemma sum_list_map_update:
  fixes g :: "'b \<Rightarrow> nat"
  assumes "i < length ps"
  shows "sum_list (map g (ps[i := q])) + g (ps ! i) = sum_list (map g ps) + g q"
  using assms
proof (induction ps arbitrary: i)
  case Nil
  then show ?case by simp
next
  case (Cons p ps)
  then show ?case by (cases i) (simp_all add: add.assoc)
qed

lemma pool_runs_count:
  assumes "pool_runs collection pending final"
  shows "count_list final x
           = count_list collection x + sum_list (map (\<lambda>p. count_list p x) pending)"
  using assms
proof (induction rule: pool_runs.induct)
  case (finished pending collection)
  then show ?case by (simp add: sum_list_concat_Nil)
next
  case (append i pending y rest collection final)
  have "sum_list (map (\<lambda>p. count_list p x) (pending[i := rest])) + count_list (y # rest) x
          = sum_list (map (\<lambda>p. count_list p x) pending) + count_list rest x"
    using sum_list_map_update [OF append.hyps(1), of "\<lambda>p. count_list p x" rest]
    by (simp add: append.hyps(2))
  with append.IH show ?case by (simp split: if_splits)
qed

lemma pool_runs_second:
  "pool_runs collection [[], q] (collection @ q)"
proof (induction q arbitrary: collection)
  case Nil
  show ?case by (simp add: pool_runs.finished)
next
  case (Cons y q)
  have "pool_runs (collection @ [y]) ([[], y # q][1 := q]) (collection @ y # q)"
    using Cons.IH [of "collection @ [y]"] by simp
  then show ?case
    by (rule pool_runs.append [rotated 2]) simp_all
qed

lemma pool_runs_in_turn:
  "pool_runs collection [p, q] (collection @ p @ q)"
proof (induction p arbitrary: collection)
  case Nil
  show ?case using pool_runs_second [of collection q] by simp
next
  case (Cons y p)
  have "pool_runs (collection @ [y]) ([y # p, q][0 := p]) (collection @ (y # p) @ q)"
    using Cons.IH [of "collection @ [y]"] by simp
  then show ?case
    by (rule pool_runs.append [rotated 2]) simp_all
qed

text \<open>
  C10. Every call of \<open>schedule\<close> for a documented function submits a run, and the run
  appends the errors of the variables check (Sphinx style) and of the full battery.
  After two calls for the same function the collection holds, after what it held
  before, the errors of both runs: the errors of the battery twice, nothing
  deduplicated. \<open>vs\<close> is what the function's \<open>variables\<close> attribute yields when the second
  run reads it: with \<open>vs = variables f\<close> the second run appends what the first did.
  When the two runs share the pool, their appends may interleave; the runs finish, and
  whatever the interleaving every error is in the collection as often as the two runs
  appended it.
\<close>

theorem schedule_twice:
  assumes "fd_docstring f = Some raw"
    and "(case style (config self) of GOOGLE \<Rightarrow> from_google env raw
          | SPHINX \<Rightarrow> from_sphinx env raw) = Inr doc"
  shows "errors (schedule env self f)
           = errors self @ variables_appends env (config self) doc f
               @ battery_appends env (config self) doc f
       \<and> errors (schedule env (schedule env self f) (f\<lparr>variables := vs\<rparr>))
           = errors self @ variables_appends env (config self) doc f
               @ battery_appends env (config self) doc f
               @ variables_appends env (config self) doc (f\<lparr>variables := vs\<rparr>)
               @ battery_appends env (config self) doc f
       \<and> pool_runs (errors self)
            [variables_appends env (config self) doc f @ battery_appends env (config self) doc f,
             variables_appends env (config self) doc (f\<lparr>variables := vs\<rparr>)
               @ battery_appends env (config self) doc f]
            (errors (schedule env (schedule env self f) (f\<lparr>variables := vs\<rparr>)))
       \<and> (\<forall>final x.
            pool_runs (errors self)
              [variables_appends env (config self) doc f @ battery_appends env (config self) doc f,
               variables_appends env (config self) doc (f\<lparr>variables := vs\<rparr>)
                 @ battery_appends env (config self) doc f]
              final
            \<longrightarrow> count_list final x
                  = count_list (errors self) x
                    + count_list (variables_appends env (config self) doc f) x
                    + count_list (variables_appends env (config self) doc (f\<lparr>variables := vs\<rparr>)) x
                    + 2 * count_list (battery_appends env (config self) doc f) x)"
proof -
  let ?V = "variables_appends env (config self) doc f"
  let ?V' = "variables_appends env (config self) doc (f\<lparr>variables := vs\<rparr>)"
  let ?B = "battery_appends env (config self) doc f"
  have one: "errors (schedule env self f) = errors self @ ?V @ ?B"
    by (rule schedule_appends [OF assms])
  have "fd_docstring (f\<lparr>variables := vs\<rparr>) = Some raw" using assms(1) by simp
  moreover have "(case style (config (schedule env self f)) of
                    GOOGLE \<Rightarrow> from_google env raw | SPHINX \<Rightarrow> from_sphinx env raw) = Inr doc"
    using assms(2) by (simp add: schedule_config)
  ultimately have two: "errors (schedule env (schedule env self f) (f\<lparr>variables := vs\<rparr>))
      = errors self @ ?V @ ?B @ ?V' @ ?B"
    using schedule_appends [where f = "f\<lparr>variables := vs\<rparr>" and self = "schedule env self f"
        and env = env and doc = doc]
    by (simp add: one schedule_config battery_appends_variables)
  have three: "pool_runs (errors self) [?V @ ?B, ?V' @ ?B]
      (errors (schedule env (schedule env self f) (f\<lparr>variables := vs\<rparr>)))"
    using pool_runs_in_turn [of "errors self" "?V @ ?B" "?V' @ ?B"] by (simp add: two)
  have four: "\<forall>final x. pool_runs (errors self) [?V @ ?B, ?V' @ ?B] final
      \<longrightarrow> count_list final x
            = count_list (errors self) x + count_list ?V x + count_list ?V' x
              + 2 * count_list ?B x"
    using pool_runs_count [of "errors self" "[?V @ ?B, ?V' @ ?B]"] by simp
  from one two three four show ?thesis by blast
qed

text \<open>
  A function with an undocumented parameter, return value and exception: three errors
  per run, six after two calls. And, under the Sphinx style, a function whose variable
  \<open>x\<close> is described: when the second run reads no variable any more, it appends an
  ExcessVariable error between the two MissingReturn errors of the battery.
\<close>

theorem schedule_twice_witness:
  "battery_appends example_env default_config plain_view fn_busy
     = [mk_error MissingParameterError fn_busy (Some ''a'') None None None,
        mk_error MissingReturnError fn_busy None None None None,
        mk_error MissingRaiseError fn_busy (Some ''ValueError'') None None None]
   \<and> errors (schedule example_env
               (schedule example_env (init_checker default_config False) fn_busy) fn_busy)
     = [mk_error MissingParameterError fn_busy (Some ''a'') None None None,
        mk_error MissingReturnError fn_busy None None None None,
        mk_error MissingRaiseError fn_busy (Some ''ValueError'') None None None,
        mk_error MissingParameterError fn_busy (Some ''a'') None None None,
        mk_error MissingReturnError fn_busy None None None None,
        mk_error MissingRaiseError fn_busy (Some ''ValueError'') None None None]
   \<and> errors (schedule example_env
               (schedule example_env (init_checker (default_config\<lparr>style := SPHINX\<rparr>) False)
                  fn_reads_x)
               (fn_reads_x\<lparr>variables := []\<rparr>))
     = [mk_error MissingReturnError fn_reads_x None None None None,
        mk_error ExcessVariableError fn_reads_x (Some ''x'') None None None,
        mk_error MissingReturnError fn_reads_x None None None None]"
proof -
  have B: "battery_appends example_env default_config plain_view fn_busy
     = [mk_error MissingParameterError fn_busy (Some ''a'') None None None,
        mk_error MissingReturnError fn_busy None None None None,
        mk_error MissingRaiseError fn_busy (Some ''ValueError'') None None None]"
    by (simp add: battery_appends_def default_config_def plain_view_def fn_busy_def
        plain_function_def example_env_def example_code_def
        check_parameters_def check_parameter_types_def
        check_parameter_types_missing_def check_return_def check_return_type_def
        check_yield_def check_raises_def check_style_def remove_ignored_def ignore_error_def
        or_empty_def or_default_def types_or_empty_def py_dict_def truthy_def mk_error_def)
  have B': "battery_appends example_env (default_config\<lparr>style := SPHINX\<rparr>) view_var_x fn_reads_x
     = [mk_error MissingReturnError fn_reads_x None None None None]"
    by (simp add: battery_appends_def default_config_def plain_view_def view_var_x_def
        fn_reads_x_def plain_function_def example_env_def example_code_def
        check_parameters_def check_parameter_types_def
        check_parameter_types_missing_def check_return_def check_return_type_def
        check_yield_def check_raises_def check_style_def remove_ignored_def ignore_error_def
        or_empty_def or_default_def types_or_empty_def py_dict_def truthy_def mk_error_def)
  have V: "variables_appends example_env (default_config\<lparr>style := SPHINX\<rparr>) view_var_x fn_reads_x
     = []"
    by (simp add: variables_appends_def check_variables_def default_config_def view_var_x_def
        plain_view_def fn_reads_x_def plain_function_def example_env_def or_empty_def)
  have V': "variables_appends example_env (default_config\<lparr>style := SPHINX\<rparr>) view_var_x
        (fn_reads_x\<lparr>variables := []\<rparr>)
     = [mk_error ExcessVariableError fn_reads_x (Some ''x'') None None None]"
    by (simp add: variables_appends_def check_variables_def default_config_def view_var_x_def
        plain_view_def fn_reads_x_def plain_function_def example_env_def or_empty_def
        or_default_def mk_error_def)
  have G: "variables_appends example_env default_config plain_view fn_busy = []"
    by (simp add: variables_appends_def default_config_def)
  have h1: "fd_docstring fn_busy = Some ''Short.''"
    by (simp add: fn_busy_def plain_function_def)
  have h2: "(case style (config (init_checker default_config False)) of
               GOOGLE \<Rightarrow> from_google example_env ''Short.''
             | SPHINX \<Rightarrow> from_sphinx example_env ''Short.'') = Inr plain_view"
    by (simp add: init_checker_def default_config_def example_env_def example_parse_def)
  have h3: "fd_docstring fn_reads_x = Some '':var x: The x.''"
    by (simp add: fn_reads_x_def plain_function_def)
  have h4: "(case style (config (init_checker (default_config\<lparr>style := SPHINX\<rparr>) False)) of
               GOOGLE \<Rightarrow> from_google example_env '':var x: The x.''
             | SPHINX \<Rightarrow> from_sphinx example_env '':var x: The x.'') = Inr view_var_x"
    by (simp add: init_checker_def default_config_def example_env_def example_parse_def)
  have c: "config (init_checker default_config False) = default_config"
    "config (init_checker (default_config\<lparr>style := SPHINX\<rparr>) False)
       = default_config\<lparr>style := SPHINX\<rparr>"
    "errors (init_checker default_config False) = []"
    "errors (init_checker (default_config\<lparr>style := SPHINX\<rparr>) False) = []"
    by (simp_all add: init_checker_def)
  have e: "fn_busy\<lparr>variables := variables fn_busy\<rparr> = fn_busy" by simp
  show ?thesis
    using schedule_twice [OF h1 h2, of "variables fn_busy"] schedule_twice [OF h3 h4, of "[]"]
    by (simp add: c e B B' V V' G)
qed

end
